theory Spec2Isabelle
  imports Main "HOL-Library.Product_Lexorder"
begin

section \<open>Round-level table\<close>

text \<open>
  The notebook \<^verbatim>\<open>02. Exploring Analytics.ipynb\<close> works on a table with one row per
  round. A table is the list of its rows, in row order. A row is a record with one field
  per column the notebook reads: \<open>game_date\<close>, \<open>trevor_points_scored\<close>,
  \<open>trevor_points_potential\<close> and \<open>sarah_points_scored\<close>. Any further columns of the
  spreadsheet are carried, untouched, in the \<open>more\<close> part of the record.

  The point columns hold integers (the data model of the specification), without
  nulls. A cell is an \<open>int\<close>: with a date in the row, \<^verbatim>\<open>apply(..., axis=1)\<close>
  hands the lambda a row of Python integers, whose arithmetic is exact. The columns
  read from the spreadsheet are 64-bit integer columns, which matters where pandas adds
  up a whole column (\<open>series_sum\<close> below). The grouping key is any linearly ordered
  type \<open>'d\<close>.
\<close>

record 'd raw_round =
  game_date :: 'd
  trevor_points_scored :: int
  trevor_points_potential :: int
  sarah_points_scored :: int

text \<open>The table after the first assignment: the column \<open>point_overlap\<close> is new.\<close>

record 'd overlap_round = "'d raw_round" +
  point_overlap :: int

text \<open>The table after the second assignment: \<open>sarah_points_potential\<close> is new.\<close>

record 'd round = "'d overlap_round" +
  sarah_points_potential :: int

text \<open>
  \<^verbatim>\<open>df.apply(f, axis=1)\<close> calls \<open>f\<close> on every row, in row order, and returns
  the results as one column.
\<close>

definition apply_axis1 :: "('r \<Rightarrow> 'v) \<Rightarrow> 'r list \<Rightarrow> 'v list" where
  "apply_axis1 f df = map f df"

text \<open>
  \<^verbatim>\<open>df["point_overlap"] = col\<close>: every row gets the value of \<open>col\<close> at its
  position as a new last column.
\<close>

definition set_point_overlap ::
  "('d, 'a) raw_round_scheme list \<Rightarrow> int list \<Rightarrow> ('d, 'a) overlap_round_scheme list" where
  "set_point_overlap df col =
     map2 (\<lambda>row v.
       \<lparr>game_date = game_date row,
        trevor_points_scored = trevor_points_scored row,
        trevor_points_potential = trevor_points_potential row,
        sarah_points_scored = sarah_points_scored row,
        point_overlap = v,
        \<dots> = raw_round.more row\<rparr>) df col"

text \<open>\<^verbatim>\<open>df["sarah_points_potential"] = col\<close>, in the same way.\<close>

definition set_sarah_points_potential ::
  "('d, 'a) overlap_round_scheme list \<Rightarrow> int list \<Rightarrow> ('d, 'a) round_scheme list" where
  "set_sarah_points_potential df col =
     map2 (\<lambda>row v.
       \<lparr>game_date = game_date row,
        trevor_points_scored = trevor_points_scored row,
        trevor_points_potential = trevor_points_potential row,
        sarah_points_scored = sarah_points_scored row,
        point_overlap = point_overlap row,
        sarah_points_potential = v,
        \<dots> = overlap_round.more row\<rparr>) df col"

text \<open>
  The cell "Loading and Transforming Data", from the copy of the raw table on:
  \<^verbatim>\<open>
  boggle_data_df["point_overlap"] = boggle_data_df.apply(
      lambda row: row.trevor_points_potential - row.trevor_points_scored, axis=1)
  boggle_data_df["sarah_points_potential"] = boggle_data_df.apply(
      lambda row: row.sarah_points_scored + row.point_overlap, axis=1)
  \<close>
\<close>

definition add_point_overlap ::
  "('d, 'a) raw_round_scheme list \<Rightarrow> ('d, 'a) overlap_round_scheme list" where
  "add_point_overlap df =
     set_point_overlap df
       (apply_axis1 (\<lambda>row. trevor_points_potential row - trevor_points_scored row) df)"

definition add_sarah_points_potential ::
  "('d, 'a) overlap_round_scheme list \<Rightarrow> ('d, 'a) round_scheme list" where
  "add_sarah_points_potential df =
     set_sarah_points_potential df
       (apply_axis1 (\<lambda>row. sarah_points_scored row + point_overlap row) df)"

definition boggle_data_df ::
  "('d, 'a) raw_round_scheme list \<Rightarrow> ('d, 'a) round_scheme list" where
  "boggle_data_df raw_boggle_data_df =
     add_sarah_points_potential (add_point_overlap raw_boggle_data_df)"

text \<open>The columns of a round-level row that were already in the raw table.\<close>

definition input_columns :: "('d, 'a) round_scheme \<Rightarrow> ('d, 'a) raw_round_scheme" where
  "input_columns row =
     \<lparr>game_date = game_date row,
      trevor_points_scored = trevor_points_scored row,
      trevor_points_potential = trevor_points_potential row,
      sarah_points_scored = sarah_points_scored row,
      \<dots> = round.more row\<rparr>"

section \<open>Game-level table\<close>

text \<open>
  A row of the table that \<^verbatim>\<open>groupby("game_date").agg(...).reset_index()\<close>
  returns: the grouping key (the column \<open>game_date\<close> of the game-level table, named
  \<open>game_date_key\<close> here since a record field name is global) and the six named
  aggregates.
\<close>

record 'd game_stats =
  game_date_key :: 'd
  trevor_total_points :: int
  trevor_min_scoring_round :: int
  trevor_max_scoring_round :: int
  sarah_total_points :: int
  sarah_min_scoring_round :: int
  sarah_max_scoring_round :: int

text \<open>The game-level table after the assignment of the column \<open>winner\<close>.\<close>

record 'd game = "'d game_stats" +
  winner :: string

text \<open>
  A signed 64-bit integer holds the values from \<open>- 2 ^ 63\<close> up to, not including,
  \<open>2 ^ 63\<close>; a result outside that range wraps around modulo \<open>2 ^ 64\<close>.
\<close>

definition int64_wrap :: "int \<Rightarrow> int" where
  "int64_wrap n = (n + 2 ^ 63) mod 2 ^ 64 - 2 ^ 63"

text \<open>
  The aggregations \<^verbatim>\<open>"sum"\<close>, \<^verbatim>\<open>"min"\<close> and \<^verbatim>\<open>"max"\<close> over the values
  of one column within one group. The scored points are 64-bit integer columns, and the
  grouped sum accumulates in a 64-bit integer: every addition wraps around, silently.
  The minimum and the maximum are values of the column. A group always holds at least
  one row, so they are taken from its first value on.
\<close>

definition series_sum :: "int list \<Rightarrow> int" where
  "series_sum xs = fold (\<lambda>x acc. int64_wrap (acc + x)) xs 0"

fun series_min :: "int list \<Rightarrow> int" where
  "series_min (x # xs) = fold (\<lambda>y acc. min acc y) xs x"

fun series_max :: "int list \<Rightarrow> int" where
  "series_max (x # xs) = fold (\<lambda>y acc. max acc y) xs x"

text \<open>
  \<^verbatim>\<open>df.groupby("game_date")\<close> with the defaults (\<^verbatim>\<open>sort=True\<close>): one group per
  distinct key, the groups in ascending order of the key, every group holding the rows
  with that key in their original order.
\<close>

definition groupby_game_date ::
  "('d::linorder, 'a) round_scheme list \<Rightarrow> ('d \<times> ('d, 'a) round_scheme list) list" where
  "groupby_game_date df =
     map (\<lambda>k. (k, filter (\<lambda>row. game_date row = k) df))
       (sort (remdups (map game_date df)))"

text \<open>
  \<^verbatim>\<open>
  .agg(trevor_total_points=("trevor_points_scored", "sum"),
       trevor_min_scoring_round=("trevor_points_scored", "min"),
       trevor_max_scoring_round=("trevor_points_scored", "max"),
       sarah_total_points=("sarah_points_scored", "sum"),
       sarah_min_scoring_round=("sarah_points_scored", "min"),
       sarah_max_scoring_round=("sarah_points_scored", "max"))
  .reset_index()
  \<close>
  One row per group; \<^verbatim>\<open>reset_index\<close> makes the key a column of the row.
\<close>

definition agg :: "'d \<times> ('d, 'a) round_scheme list \<Rightarrow> 'd game_stats" where
  "agg g =
     (case g of (k, rows) \<Rightarrow>
       \<lparr>game_date_key = k,
        trevor_total_points = series_sum (map trevor_points_scored rows),
        trevor_min_scoring_round = series_min (map trevor_points_scored rows),
        trevor_max_scoring_round = series_max (map trevor_points_scored rows),
        sarah_total_points = series_sum (map sarah_points_scored rows),
        sarah_min_scoring_round = series_min (map sarah_points_scored rows),
        sarah_max_scoring_round = series_max (map sarah_points_scored rows)\<rparr>)"

definition game_level_agg :: "('d::linorder, 'a) round_scheme list \<Rightarrow> 'd game_stats list" where
  "game_level_agg df = map agg (groupby_game_date df)"

text \<open>\<^verbatim>\<open>df["winner"] = col\<close>: the new last column of the game-level table.\<close>

definition set_winner :: "'d game_stats list \<Rightarrow> string list \<Rightarrow> 'd game list" where
  "set_winner df col =
     map2 (\<lambda>row v.
       \<lparr>game_date_key = game_date_key row,
        trevor_total_points = trevor_total_points row,
        trevor_min_scoring_round = trevor_min_scoring_round row,
        trevor_max_scoring_round = trevor_max_scoring_round row,
        sarah_total_points = sarah_total_points row,
        sarah_min_scoring_round = sarah_min_scoring_round row,
        sarah_max_scoring_round = sarah_max_scoring_round row,
        winner = v\<rparr>) df col"

text \<open>
  \<^verbatim>\<open>
  game_level_stats_df["winner"] = game_level_stats_df.apply(
      lambda row: ("Trevor" if row.trevor_total_points > row.sarah_total_points
                   else "Sarah"), axis=1)
  \<close>
\<close>

definition add_winner :: "'d game_stats list \<Rightarrow> 'd game list" where
  "add_winner df =
     set_winner df
       (apply_axis1
         (\<lambda>row. if trevor_total_points row > sarah_total_points row
                then ''Trevor'' else ''Sarah'') df)"

text \<open>The cell "Calculating Game-Level Statistics", from the round-level table on.\<close>

definition game_level_stats_df :: "('d::linorder, 'a) round_scheme list \<Rightarrow> 'd game list" where
  "game_level_stats_df df = add_winner (game_level_agg df)"

text \<open>
  The two tables the notebook saves, from the raw table: the round-level one and the
  game-level one.
\<close>

definition notebook ::
  "('d::linorder, 'a) raw_round_scheme list \<Rightarrow> ('d, 'a) round_scheme list \<times> 'd game list" where
  "notebook raw_boggle_data_df =
     (let df = boggle_data_df raw_boggle_data_df in (df, game_level_stats_df df))"

text \<open>
  Calendar dates for concrete tables: year, month and day, in lexicographic order, which
  is the chronological one.
\<close>

type_synonym date = "nat \<times> nat \<times> nat"

section \<open>Concrete tables\<close>

text \<open>The two rounds of the example in the specification's testable properties.\<close>

definition example_rounds :: "date raw_round list" where
  "example_rounds =
     [\<lparr>game_date = (2024, 1, 1), trevor_points_scored = 5,
       trevor_points_potential = 8, sarah_points_scored = 6\<rparr>,
      \<lparr>game_date = (2024, 1, 1), trevor_points_scored = 3,
       trevor_points_potential = 3, sarah_points_scored = 10\<rparr>]"

text \<open>
  Four rounds of two games, the later game first in the table. The game of 2024-01-02
  ends in a tie, 11 points each; Sarah wins the game of 2024-01-01 by 16 to 8.
\<close>

definition season :: "date raw_round list" where
  "season =
     [\<lparr>game_date = (2024, 1, 2), trevor_points_scored = 4,
       trevor_points_potential = 6, sarah_points_scored = 4\<rparr>,
      \<lparr>game_date = (2024, 1, 1), trevor_points_scored = 5,
       trevor_points_potential = 8, sarah_points_scored = 6\<rparr>,
      \<lparr>game_date = (2024, 1, 2), trevor_points_scored = 7,
       trevor_points_potential = 9, sarah_points_scored = 7\<rparr>,
      \<lparr>game_date = (2024, 1, 1), trevor_points_scored = 3,
       trevor_points_potential = 3, sarah_points_scored = 10\<rparr>]"

definition season_rounds :: "date round list" where
  "season_rounds =
     [\<lparr>game_date = (2024, 1, 2), trevor_points_scored = 4, trevor_points_potential = 6,
       sarah_points_scored = 4, point_overlap = 2, sarah_points_potential = 6\<rparr>,
      \<lparr>game_date = (2024, 1, 1), trevor_points_scored = 5, trevor_points_potential = 8,
       sarah_points_scored = 6, point_overlap = 3, sarah_points_potential = 9\<rparr>,
      \<lparr>game_date = (2024, 1, 2), trevor_points_scored = 7, trevor_points_potential = 9,
       sarah_points_scored = 7, point_overlap = 2, sarah_points_potential = 9\<rparr>,
      \<lparr>game_date = (2024, 1, 1), trevor_points_scored = 3, trevor_points_potential = 3,
       sarah_points_scored = 10, point_overlap = 0, sarah_points_potential = 10\<rparr>]"

definition first_game :: "date game" where
  "first_game =
     \<lparr>game_date_key = (2024, 1, 1), trevor_total_points = 8,
      trevor_min_scoring_round = 3, trevor_max_scoring_round = 5,
      sarah_total_points = 16, sarah_min_scoring_round = 6,
      sarah_max_scoring_round = 10, winner = ''Sarah''\<rparr>"

definition tied_game :: "date game" where
  "tied_game =
     \<lparr>game_date_key = (2024, 1, 2), trevor_total_points = 11,
      trevor_min_scoring_round = 4, trevor_max_scoring_round = 7,
      sarah_total_points = 11, sarah_min_scoring_round = 4,
      sarah_max_scoring_round = 7, winner = ''Sarah''\<rparr>"

text \<open>A round whose scored points exceed the potential points.\<close>

definition overscored :: "date raw_round list" where
  "overscored =
     [\<lparr>game_date = (2024, 1, 3), trevor_points_scored = 5,
       trevor_points_potential = 2, sarah_points_scored = 4\<rparr>]"

text \<open>
  Two rounds of one game in which Trevor scores \<open>2 ^ 62\<close> points each time: the
  exact sum, \<open>2 ^ 63\<close>, is one more than the largest 64-bit integer.
\<close>

definition overflow_rounds :: "date raw_round list" where
  "overflow_rounds =
     [\<lparr>game_date = (2024, 1, 4), trevor_points_scored = 4611686018427387904,
       trevor_points_potential = 4611686018427387904, sarah_points_scored = 1\<rparr>,
      \<lparr>game_date = (2024, 1, 4), trevor_points_scored = 4611686018427387904,
       trevor_points_potential = 4611686018427387904, sarah_points_scored = 1\<rparr>]"

definition overflow_game :: "date game" where
  "overflow_game =
     \<lparr>game_date_key = (2024, 1, 4), trevor_total_points = - 9223372036854775808,
      trevor_min_scoring_round = 4611686018427387904,
      trevor_max_scoring_round = 4611686018427387904,
      sarah_total_points = 2, sarah_min_scoring_round = 1,
      sarah_max_scoring_round = 1, winner = ''Sarah''\<rparr>"

section \<open>The derived columns, row by row\<close>

lemma map2_same: "map2 g xs (map f xs) = map (\<lambda>x. g x (f x)) xs"
  by (induction xs) simp_all

lemma add_point_overlap_map:
  "add_point_overlap df =
     map (\<lambda>row. \<lparr>game_date = game_date row,
        trevor_points_scored = trevor_points_scored row,
        trevor_points_potential = trevor_points_potential row,
        sarah_points_scored = sarah_points_scored row,
        point_overlap = trevor_points_potential row - trevor_points_scored row,
        \<dots> = raw_round.more row\<rparr>) df"
  unfolding add_point_overlap_def set_point_overlap_def apply_axis1_def
  by (rule map2_same)

lemma add_sarah_points_potential_map:
  "add_sarah_points_potential df =
     map (\<lambda>row. \<lparr>game_date = game_date row,
        trevor_points_scored = trevor_points_scored row,
        trevor_points_potential = trevor_points_potential row,
        sarah_points_scored = sarah_points_scored row,
        point_overlap = point_overlap row,
        sarah_points_potential = sarah_points_scored row + point_overlap row,
        \<dots> = overlap_round.more row\<rparr>) df"
  unfolding add_sarah_points_potential_def set_sarah_points_potential_def apply_axis1_def
  by (rule map2_same)

lemma boggle_data_df_map:
  "boggle_data_df raw =
     map (\<lambda>row. \<lparr>game_date = game_date row,
        trevor_points_scored = trevor_points_scored row,
        trevor_points_potential = trevor_points_potential row,
        sarah_points_scored = sarah_points_scored row,
        point_overlap = trevor_points_potential row - trevor_points_scored row,
        sarah_points_potential =
          sarah_points_scored row + (trevor_points_potential row - trevor_points_scored row),
        \<dots> = raw_round.more row\<rparr>) raw"
  by (simp add: boggle_data_df_def add_point_overlap_map add_sarah_points_potential_map)

lemma raw_round_rebuild:
  "\<lparr>game_date = game_date x,
     trevor_points_scored = trevor_points_scored x,
     trevor_points_potential = trevor_points_potential x,
     sarah_points_scored = sarah_points_scored x,
     \<dots> = raw_round.more x\<rparr> = x"
  by (cases x) simp

lemma season_rounds_eval: "boggle_data_df season = season_rounds"
  by (simp add: boggle_data_df_map season_def season_rounds_def)

text \<open>
  Claim C2. In every row of the round-level table, \<open>point_overlap\<close> is
  \<open>trevor_points_potential\<close> minus \<open>trevor_points_scored\<close> of that row.
\<close>

theorem point_overlap_eq:
  "row \<in> set (boggle_data_df raw) \<Longrightarrow>
     point_overlap row = trevor_points_potential row - trevor_points_scored row"
  by (auto simp: boggle_data_df_map)

theorem point_overlap_eq_witness:
  "season_rounds ! 0 \<in> set (boggle_data_df season) \<and>
   point_overlap (season_rounds ! 0) = 2 \<and>
   trevor_points_potential (season_rounds ! 0) - trevor_points_scored (season_rounds ! 0) = 2"
proof -
  have h: "season_rounds ! 0 \<in> set (boggle_data_df season)"
    by (simp add: season_rounds_eval) (simp add: season_rounds_def)
  from point_overlap_eq [OF h] h show ?thesis
    by (simp add: season_rounds_def)
qed

text \<open>
  Claim C3. In every row of the round-level table, \<open>sarah_points_potential\<close> is
  \<open>sarah_points_scored\<close> plus \<open>point_overlap\<close> of that row; put the other way,
  \<open>sarah_points_potential\<close> minus \<open>sarah_points_scored\<close> is \<open>point_overlap\<close>.
\<close>

theorem sarah_points_potential_eq:
  "row \<in> set (boggle_data_df raw) \<Longrightarrow>
     sarah_points_potential row = sarah_points_scored row + point_overlap row \<and>
     sarah_points_potential row - sarah_points_scored row = point_overlap row"
  by (auto simp: boggle_data_df_map)

theorem sarah_points_potential_eq_witness:
  "season_rounds ! 1 \<in> set (boggle_data_df season) \<and>
   sarah_points_potential (season_rounds ! 1) = 9 \<and>
   sarah_points_scored (season_rounds ! 1) + point_overlap (season_rounds ! 1) = 9 \<and>
   sarah_points_potential (season_rounds ! 1) - sarah_points_scored (season_rounds ! 1) = 3"
proof -
  have h: "season_rounds ! 1 \<in> set (boggle_data_df season)"
    by (simp add: season_rounds_eval) (simp add: season_rounds_def)
  from sarah_points_potential_eq [OF h] h show ?thesis
    by (simp add: season_rounds_def)
qed

text \<open>
  Claim C5. The round-level table has as many rows as the raw table, and dropping the
  two derived columns from it gives the raw table back: the same rows in the same
  order, every input column, the further columns included, with its value. The two
  derived columns, \<open>point_overlap\<close> and \<open>sarah_points_potential\<close>, are the only
  fields that the row type of the result has beyond those of the raw row.
\<close>

theorem derivation_frame:
  "length (boggle_data_df raw) = length raw \<and> map input_columns (boggle_data_df raw) = raw"
  by (simp add: boggle_data_df_map input_columns_def o_def raw_round_rebuild)

text \<open>
  Claim C6. The derivation gives every raw table a round-level table, row for row. A
  row whose potential points are below the scored points is not rejected: its
  \<open>point_overlap\<close> is the negative difference. And when in every row the potential
  points are at least the scored points, \<open>point_overlap\<close> is at least 0 in every
  row.
\<close>

theorem derivation_total:
  "length (boggle_data_df raw) = length raw \<and>
   (\<forall>i < length raw.
      trevor_points_potential (raw ! i) < trevor_points_scored (raw ! i) \<longrightarrow>
      point_overlap (boggle_data_df raw ! i) =
        trevor_points_potential (raw ! i) - trevor_points_scored (raw ! i) \<and>
      point_overlap (boggle_data_df raw ! i) < 0) \<and>
   ((\<forall>row \<in> set raw. trevor_points_scored row \<le> trevor_points_potential row) \<longrightarrow>
    (\<forall>row \<in> set (boggle_data_df raw). 0 \<le> point_overlap row))"
  by (auto simp: boggle_data_df_map)

theorem derivation_total_witness:
  "0 < length overscored \<and>
   trevor_points_potential (overscored ! 0) < trevor_points_scored (overscored ! 0) \<and>
   length (boggle_data_df overscored) = 1 \<and>
   point_overlap (boggle_data_df overscored ! 0) = - 3 \<and>
   list_all (\<lambda>row. trevor_points_scored row \<le> trevor_points_potential row) season \<and>
   list_all (\<lambda>row. 0 \<le> point_overlap row) (boggle_data_df season)"
proof -
  have bad: "0 < length overscored"
    "trevor_points_potential (overscored ! 0) < trevor_points_scored (overscored ! 0)"
    by (simp_all add: overscored_def)
  have good: "\<forall>row \<in> set season. trevor_points_scored row \<le> trevor_points_potential row"
    by (simp add: season_def)
  from derivation_total [of overscored] bad
  have "length (boggle_data_df overscored) = 1"
    "point_overlap (boggle_data_df overscored ! 0) = - 3"
    by (simp_all add: overscored_def)
  moreover from derivation_total [of season] good
  have "\<forall>row \<in> set (boggle_data_df season). 0 \<le> point_overlap row"
    by blast
  ultimately show ?thesis
    using bad good by (simp add: list_all_iff)
qed

section \<open>The aggregates of a game\<close>

lemma int64_wrap_id: "- (2 ^ 63) \<le> n \<Longrightarrow> n < 2 ^ 63 \<Longrightarrow> int64_wrap n = n"
  by (simp add: int64_wrap_def)

lemma int64_wrap_add: "int64_wrap (int64_wrap a + x) = int64_wrap (a + x)"
proof -
  have "((a + 2 ^ 63) mod 2 ^ 64 + x) mod 2 ^ 64 = (a + 2 ^ 63 + x) mod (2 ^ 64 :: int)"
    by (rule mod_add_left_eq)
  then show ?thesis
    by (simp add: int64_wrap_def algebra_simps)
qed

lemma fold_wrap_sum_list:
  "fold (\<lambda>x acc. int64_wrap (acc + x)) xs (int64_wrap a) = int64_wrap (a + sum_list xs)"
proof (induction xs arbitrary: a)
  case Nil
  then show ?case by simp
next
  case (Cons x xs)
  have "fold (\<lambda>x acc. int64_wrap (acc + x)) (x # xs) (int64_wrap a) =
      fold (\<lambda>x acc. int64_wrap (acc + x)) xs (int64_wrap (a + x))"
    by (simp add: int64_wrap_add)
  also have "\<dots> = int64_wrap (a + x + sum_list xs)"
    by (rule Cons.IH)
  finally show ?case by (simp add: add.assoc)
qed

lemma series_sum_wrap: "series_sum xs = int64_wrap (sum_list xs)"
proof -
  have "int64_wrap 0 = 0" by (simp add: int64_wrap_def)
  with fold_wrap_sum_list [of xs 0] show ?thesis
    by (simp add: series_sum_def)
qed

lemma series_sum_exact:
  "- (2 ^ 63) \<le> sum_list xs \<Longrightarrow> sum_list xs < 2 ^ 63 \<Longrightarrow> series_sum xs = sum_list xs"
  by (simp add: series_sum_wrap int64_wrap_id)

lemma series_min_Min: "xs \<noteq> [] \<Longrightarrow> series_min xs = Min (set xs)"
proof (cases xs)
  case Nil
  assume "xs \<noteq> []"
  with Nil show ?thesis by simp
next
  case (Cons x ys)
  have "(\<lambda>y acc. min acc y) = (min :: int \<Rightarrow> int \<Rightarrow> int)"
    by (simp add: fun_eq_iff min.commute)
  moreover have "fold min ys x = Min (set (x # ys))"
    by (rule Min.set_eq_fold [symmetric])
  ultimately show ?thesis
    unfolding Cons by (simp del: set_simps)
qed

lemma series_max_Max: "xs \<noteq> [] \<Longrightarrow> series_max xs = Max (set xs)"
proof (cases xs)
  case Nil
  assume "xs \<noteq> []"
  with Nil show ?thesis by simp
next
  case (Cons x ys)
  have "(\<lambda>y acc. max acc y) = (max :: int \<Rightarrow> int \<Rightarrow> int)"
    by (simp add: fun_eq_iff max.commute)
  moreover have "fold max ys x = Max (set (x # ys))"
    by (rule Max.set_eq_fold [symmetric])
  ultimately show ?thesis
    unfolding Cons by (simp del: set_simps)
qed

lemma group_keys: "map fst (groupby_game_date df) = sort (remdups (map game_date df))"
  by (simp add: groupby_game_date_def o_def)

lemma group_rows:
  "(k, rows) \<in> set (groupby_game_date df) \<Longrightarrow>
     rows = filter (\<lambda>row. game_date row = k) df \<and> k \<in> game_date ` set df"
  by (auto simp: groupby_game_date_def)

lemma group_nonempty: "(k, rows) \<in> set (groupby_game_date df) \<Longrightarrow> rows \<noteq> []"
  by (auto simp: groupby_game_date_def filter_empty_conv)

lemma add_winner_map:
  "add_winner df =
     map (\<lambda>row. \<lparr>game_date_key = game_date_key row,
        trevor_total_points = trevor_total_points row,
        trevor_min_scoring_round = trevor_min_scoring_round row,
        trevor_max_scoring_round = trevor_max_scoring_round row,
        sarah_total_points = sarah_total_points row,
        sarah_min_scoring_round = sarah_min_scoring_round row,
        sarah_max_scoring_round = sarah_max_scoring_round row,
        winner = (if trevor_total_points row > sarah_total_points row
                  then ''Trevor'' else ''Sarah'')\<rparr>) df"
  unfolding add_winner_def set_winner_def apply_axis1_def
  by (rule map2_same)

lemma game_keys:
  "map game_date_key (game_level_stats_df df) = sort (remdups (map game_date df))"
  by (simp add: game_level_stats_df_def add_winner_map game_level_agg_def
      groupby_game_date_def agg_def o_def)

lemma game_row:
  assumes "g \<in> set (game_level_stats_df df)"
  obtains rows where
    "rows = filter (\<lambda>row. game_date row = game_date_key g) df"
    "rows \<noteq> []"
    "game_date_key g \<in> game_date ` set df"
    "trevor_total_points g = series_sum (map trevor_points_scored rows)"
    "trevor_min_scoring_round g = series_min (map trevor_points_scored rows)"
    "trevor_max_scoring_round g = series_max (map trevor_points_scored rows)"
    "sarah_total_points g = series_sum (map sarah_points_scored rows)"
    "sarah_min_scoring_round g = series_min (map sarah_points_scored rows)"
    "sarah_max_scoring_round g = series_max (map sarah_points_scored rows)"
    "winner g = (if trevor_total_points g > sarah_total_points g then ''Trevor'' else ''Sarah'')"
proof -
  from assms obtain k rows where kr: "(k, rows) \<in> set (groupby_game_date df)"
    and g: "g = \<lparr>game_date_key = k,
        trevor_total_points = series_sum (map trevor_points_scored rows),
        trevor_min_scoring_round = series_min (map trevor_points_scored rows),
        trevor_max_scoring_round = series_max (map trevor_points_scored rows),
        sarah_total_points = series_sum (map sarah_points_scored rows),
        sarah_min_scoring_round = series_min (map sarah_points_scored rows),
        sarah_max_scoring_round = series_max (map sarah_points_scored rows),
        winner = (if series_sum (map trevor_points_scored rows) > series_sum (map sarah_points_scored rows)
                  then ''Trevor'' else ''Sarah'')\<rparr>"
    by (auto simp: game_level_stats_df_def add_winner_map game_level_agg_def agg_def)
  from kr have "rows = filter (\<lambda>row. game_date row = k) df" "k \<in> game_date ` set df" "rows \<noteq> []"
    using group_rows group_nonempty by blast+
  with g show thesis
    by (intro that[of rows]) simp_all
qed

lemma season_games_eval: "game_level_stats_df season_rounds = [first_game, tied_game]"
  by (simp add: game_level_stats_df_def add_winner_map game_level_agg_def
      groupby_game_date_def agg_def series_sum_def int64_wrap_def season_rounds_def
      first_game_def tied_game_def)

lemma overflow_games_eval:
  "game_level_stats_df (boggle_data_df overflow_rounds) = [overflow_game]"
  by (simp add: boggle_data_df_map game_level_stats_df_def add_winner_map
      game_level_agg_def groupby_game_date_def agg_def series_sum_def int64_wrap_def
      overflow_rounds_def overflow_game_def)

text \<open>
  Claim C1. In every row of the game-level table, \<open>winner\<close> is \<open>''Trevor''\<close> exactly
  when \<open>trevor_total_points\<close> is strictly greater than \<open>sarah_total_points\<close>, and
  \<open>''Sarah''\<close> in every other case; a tie of the two totals is such a case.
\<close>

theorem winner_rule:
  "g \<in> set (game_level_stats_df df) \<Longrightarrow>
     (winner g = ''Trevor'') = (trevor_total_points g > sarah_total_points g) \<and>
     (winner g = ''Sarah'') = (\<not> trevor_total_points g > sarah_total_points g)"
  by (erule game_row) simp

theorem winner_rule_witness:
  "tied_game \<in> set (game_level_stats_df (boggle_data_df season)) \<and>
   trevor_total_points tied_game = sarah_total_points tied_game \<and>
   winner tied_game \<noteq> ''Trevor'' \<and> winner tied_game = ''Sarah''"
proof -
  have h: "tied_game \<in> set (game_level_stats_df (boggle_data_df season))"
    by (simp add: season_rounds_eval season_games_eval)
  from winner_rule [OF h] h show ?thesis
    by (simp add: tied_game_def)
qed




text \<open>
  Claim C7. The rows of the game-level table are in ascending order of the grouping
  key \<open>game_date\<close>.
\<close>

theorem game_level_sorted: "sorted (map game_date_key (game_level_stats_df df))"
  by (simp add: game_keys)

lemma series_min_le_max: "xs \<noteq> [] \<Longrightarrow> series_min xs \<le> series_max xs"
proof -
  assume ne: "xs \<noteq> []"
  then obtain x where x: "x \<in> set xs" by (cases xs) auto
  then have "Min (set xs) \<le> x" "x \<le> Max (set xs)" by simp_all
  with ne show ?thesis by (simp add: series_min_Min series_max_Max)
qed

lemma member_le_sum_list_int:
  "\<forall>x \<in> set xs. (0::int) \<le> x \<Longrightarrow> y \<in> set xs \<Longrightarrow> y \<le> sum_list xs"
proof (induction xs)
  case Nil
  then show ?case by simp
next
  case (Cons a xs)
  then have "0 \<le> a" "0 \<le> sum_list xs" by (simp_all add: sum_list_nonneg)
  with Cons show ?case by auto
qed

lemma series_max_le_sum:
  assumes "xs \<noteq> []" "\<forall>x \<in> set xs. 0 \<le> x" "sum_list xs < 2 ^ 63"
  shows "series_max xs \<le> series_sum xs"
proof -
  from assms(1) have "Max (set xs) \<in> set xs" by simp
  with assms(2) have "Max (set xs) \<le> sum_list xs"
    by (simp add: member_le_sum_list_int)
  moreover from assms(2) have "0 \<le> sum_list xs"
    by (simp add: sum_list_nonneg)
  then have "series_sum xs = sum_list xs"
    using assms(3) by (intro series_sum_exact) simp_all
  ultimately show ?thesis
    using assms(1) by (simp add: series_max_Max)
qed

text \<open>
  Claim C9, as the code has it. In the row of a game whose rounds all have
  non-negative scored points, each player's minimum is at most the maximum, and the
  maximum is at most the total whenever the sum of that player's scored points in the
  game is below \<open>2 ^ 63\<close>, so that the 64-bit total does not wrap around.
\<close>

theorem game_stats_ordered:
  assumes g: "g \<in> set (game_level_stats_df df)"
    and nonneg: "\<forall>row \<in> set df. game_date row = game_date_key g \<longrightarrow>
                   0 \<le> trevor_points_scored row \<and> 0 \<le> sarah_points_scored row"
  shows "trevor_min_scoring_round g \<le> trevor_max_scoring_round g \<and>
         (sum_list (map trevor_points_scored
            (filter (\<lambda>row. game_date row = game_date_key g) df)) < 2 ^ 63 \<longrightarrow>
          trevor_max_scoring_round g \<le> trevor_total_points g) \<and>
         sarah_min_scoring_round g \<le> sarah_max_scoring_round g \<and>
         (sum_list (map sarah_points_scored
            (filter (\<lambda>row. game_date row = game_date_key g) df)) < 2 ^ 63 \<longrightarrow>
          sarah_max_scoring_round g \<le> sarah_total_points g)"
proof -
  from g obtain rows where rows: "rows = filter (\<lambda>row. game_date row = game_date_key g) df"
    and ne: "rows \<noteq> []"
    and t: "trevor_total_points g = series_sum (map trevor_points_scored rows)"
      "trevor_min_scoring_round g = series_min (map trevor_points_scored rows)"
      "trevor_max_scoring_round g = series_max (map trevor_points_scored rows)"
    and s: "sarah_total_points g = series_sum (map sarah_points_scored rows)"
      "sarah_min_scoring_round g = series_min (map sarah_points_scored rows)"
      "sarah_max_scoring_round g = series_max (map sarah_points_scored rows)"
    by (rule game_row)
  from ne have tne: "map trevor_points_scored rows \<noteq> []"
    and sne: "map sarah_points_scored rows \<noteq> []" by simp_all
  from nonneg rows have tpos: "\<forall>x \<in> set (map trevor_points_scored rows). 0 \<le> x"
    and spos: "\<forall>x \<in> set (map sarah_points_scored rows). 0 \<le> x" by auto
  show ?thesis
    unfolding t s rows [symmetric]
    using series_min_le_max [OF tne] series_min_le_max [OF sne]
      series_max_le_sum [OF tne tpos] series_max_le_sum [OF sne spos]
    by simp
qed

theorem game_stats_ordered_witness:
  "first_game \<in> set (game_level_stats_df (boggle_data_df season)) \<and>
   list_all (\<lambda>row. 0 \<le> trevor_points_scored row \<and> 0 \<le> sarah_points_scored row)
     (boggle_data_df season) \<and>
   sum_list (map trevor_points_scored
     (filter (\<lambda>row. game_date row = game_date_key first_game) (boggle_data_df season))) = 8 \<and>
   sum_list (map sarah_points_scored
     (filter (\<lambda>row. game_date row = game_date_key first_game) (boggle_data_df season))) = 16 \<and>
   (8 :: int) < 2 ^ 63 \<and> (16 :: int) < 2 ^ 63 \<and>
   trevor_min_scoring_round first_game \<le> trevor_max_scoring_round first_game \<and>
   trevor_max_scoring_round first_game \<le> trevor_total_points first_game \<and>
   sarah_min_scoring_round first_game \<le> sarah_max_scoring_round first_game \<and>
   sarah_max_scoring_round first_game \<le> sarah_total_points first_game"
proof -
  have h: "first_game \<in> set (game_level_stats_df (boggle_data_df season))"
    by (simp add: season_rounds_eval season_games_eval)
  have n: "\<forall>row \<in> set (boggle_data_df season).
      0 \<le> trevor_points_scored row \<and> 0 \<le> sarah_points_scored row"
    by (simp add: season_rounds_eval) (simp add: season_rounds_def)
  then have n': "\<forall>row \<in> set (boggle_data_df season). game_date row = game_date_key first_game \<longrightarrow>
      0 \<le> trevor_points_scored row \<and> 0 \<le> sarah_points_scored row"
    by blast
  have t: "sum_list (map trevor_points_scored
     (filter (\<lambda>row. game_date row = game_date_key first_game) (boggle_data_df season))) = 8"
    by (simp add: season_rounds_eval) (simp add: season_rounds_def first_game_def)
  have s: "sum_list (map sarah_points_scored
     (filter (\<lambda>row. game_date row = game_date_key first_game) (boggle_data_df season))) = 16"
    by (simp add: season_rounds_eval) (simp add: season_rounds_def first_game_def)
  from game_stats_ordered [OF h n'] h n t s show ?thesis
    by (simp add: list_all_iff)
qed

text \<open>
  Without the bound the maximum can exceed the total: in the game of two rounds of
  \<open>2 ^ 62\<close> points, all scored points are non-negative, Trevor's maximum is
  \<open>2 ^ 62\<close> and his total is \<open>- 2 ^ 63\<close>.
\<close>

theorem game_stats_ordered_counterexample:
  "overflow_game \<in> set (game_level_stats_df (boggle_data_df overflow_rounds)) \<and>
   list_all (\<lambda>row. 0 \<le> trevor_points_scored row \<and> 0 \<le> sarah_points_scored row)
     (boggle_data_df overflow_rounds) \<and>
   trevor_max_scoring_round overflow_game = 4611686018427387904 \<and>
   trevor_total_points overflow_game = - 9223372036854775808 \<and>
   \<not> trevor_max_scoring_round overflow_game \<le> trevor_total_points overflow_game"
  by (simp add: overflow_games_eval)
    (simp add: boggle_data_df_map overflow_rounds_def overflow_game_def)

section \<open>The notebook on concrete tables\<close>

text \<open>
  Claim C8. On the two rounds of 2024-01-01 with Trevor scoring 5 of 8 potential points
  and 3 of 3, and Sarah scoring 6 and 10, the round-level table has \<open>point_overlap\<close>
  3 and 0 and \<open>sarah_points_potential\<close> 9 and 10, and the game-level table is the
  one row of 2024-01-01 with Trevor's total 8, minimum 3 and maximum 5, Sarah's total
  16, minimum 6 and maximum 10, and the winner Sarah.
\<close>

theorem example_rounds_tables:
  "map point_overlap (fst (notebook example_rounds)) = [3, 0] \<and>
   map sarah_points_potential (fst (notebook example_rounds)) = [9, 10] \<and>
   snd (notebook example_rounds) =
     [\<lparr>game_date_key = (2024, 1, 1), trevor_total_points = 8,
       trevor_min_scoring_round = 3, trevor_max_scoring_round = 5,
       sarah_total_points = 16, sarah_min_scoring_round = 6,
       sarah_max_scoring_round = 10, winner = ''Sarah''\<rparr>]"
  by (simp add: notebook_def example_rounds_def boggle_data_df_def
      add_point_overlap_def set_point_overlap_def
      add_sarah_points_potential_def set_sarah_points_potential_def apply_axis1_def
      game_level_stats_df_def game_level_agg_def groupby_game_date_def agg_def
      add_winner_def set_winner_def series_sum_def int64_wrap_def)

text \<open>
  Claim C10. On a raw table without rows the round-level table has no rows, and on a
  round-level table without rows the game-level table has no rows; the notebook as a
  whole maps the empty table to two empty tables.
\<close>

theorem empty_table:
  "boggle_data_df ([] :: ('d::linorder, 'a) raw_round_scheme list) = [] \<and>
   game_level_stats_df ([] :: ('d, 'a) round_scheme list) = [] \<and>
   notebook ([] :: ('d, 'a) raw_round_scheme list) = ([], [])"
  by (simp add: notebook_def boggle_data_df_def
      add_point_overlap_def set_point_overlap_def
      add_sarah_points_potential_def set_sarah_points_potential_def apply_axis1_def
      game_level_stats_df_def game_level_agg_def groupby_game_date_def
      add_winner_def set_winner_def)

end
